theory Spec2Isabelle
  imports Complex_Main "HOL-Library.AList" "HOL-Library.List_Lexorder" "HOL-Library.Char_ord"
    "HOL-Library.Product_Lexorder"
begin

section \<open>Values\<close>

text \<open>
  A cell of a table, a value of a product dictionary, a score: a Python or NumPy float or
  integer, or a string. Numbers are idealised: a finite number is a real (no rounding,
  no overflow), and the three special floats are kept apart, since the code's
  comparisons and divisions treat them differently.
\<close>

datatype cell = Num real | PInf | NInf | NaN | Str string

datatype error =
    KeyError string
  | ValueError string
  | TypeError
  | ZeroDivisionError
  | AttributeError
  | IndexError
  | OverflowError
  | LibraryError string

fun is_Str :: "cell \<Rightarrow> bool" where
  "is_Str (Str s) = True"
| "is_Str c = False"

text \<open>\<open>a < b\<close> on floats: false as soon as one side is NaN.\<close>

fun fl_less :: "cell \<Rightarrow> cell \<Rightarrow> bool" where
  "fl_less (Num a) (Num b) = (a < b)"
| "fl_less (Num a) PInf = True"
| "fl_less NInf (Num b) = True"
| "fl_less NInf PInf = True"
| "fl_less a b = False"

text \<open>
  Python's \<open>a < b\<close>: two strings compare lexicographically, a string against a number
  raises TypeError.
\<close>

fun py_lt :: "cell \<Rightarrow> cell \<Rightarrow> error + bool" where
  "py_lt (Str a) (Str b) = Inr (a < b)"
| "py_lt (Str a) b = Inl TypeError"
| "py_lt a (Str b) = Inl TypeError"
| "py_lt a b = Inr (fl_less a b)"

definition bind_err :: "error + 'a \<Rightarrow> ('a \<Rightarrow> error + 'b) \<Rightarrow> error + 'b" where
  "bind_err r f = (case r of Inl e \<Rightarrow> Inl e | Inr v \<Rightarrow> f v)"

subsection \<open>Float arithmetic\<close>

text \<open>
  The arithmetic of IEEE floats on the idealised values (signed zeros are not told apart).
  These are the operations of a numeric column and of a NumPy scalar: none of them
  raises, a division by zero gives an infinity or NaN.
\<close>

fun fl_sign :: "cell \<Rightarrow> real" where
  "fl_sign (Num a) = sgn a"
| "fl_sign PInf = 1"
| "fl_sign NInf = - 1"
| "fl_sign c = 0"

definition fl_inf :: "real \<Rightarrow> cell" where
  "fl_inf s = (if 0 < s then PInf else if s < 0 then NInf else NaN)"

fun fl_neg :: "cell \<Rightarrow> cell" where
  "fl_neg (Num a) = Num (- a)"
| "fl_neg PInf = NInf"
| "fl_neg NInf = PInf"
| "fl_neg c = c"

fun fl_add :: "cell \<Rightarrow> cell \<Rightarrow> cell" where
  "fl_add (Num a) (Num b) = Num (a + b)"
| "fl_add (Num a) PInf = PInf"
| "fl_add (Num a) NInf = NInf"
| "fl_add PInf (Num b) = PInf"
| "fl_add NInf (Num b) = NInf"
| "fl_add PInf PInf = PInf"
| "fl_add NInf NInf = NInf"
| "fl_add a b = NaN"

definition fl_sub :: "cell \<Rightarrow> cell \<Rightarrow> cell" where
  "fl_sub a b = fl_add a (fl_neg b)"

fun fl_mul :: "cell \<Rightarrow> cell \<Rightarrow> cell" where
  "fl_mul (Num a) (Num b) = Num (a * b)"
| "fl_mul NaN b = NaN"
| "fl_mul a NaN = NaN"
| "fl_mul (Str s) b = NaN"
| "fl_mul a (Str s) = NaN"
| "fl_mul a b = fl_inf (fl_sign a * fl_sign b)"

fun fl_div :: "cell \<Rightarrow> cell \<Rightarrow> cell" where
  "fl_div (Num a) (Num b) = (if b = 0 then fl_inf (sgn a) else Num (a / b))"
| "fl_div (Num a) PInf = Num 0"
| "fl_div (Num a) NInf = Num 0"
| "fl_div PInf (Num b) = (if 0 \<le> b then PInf else NInf)"
| "fl_div NInf (Num b) = (if 0 \<le> b then NInf else PInf)"
| "fl_div a b = NaN"

text \<open>\<open>a <= b\<close> on floats.\<close>

definition fl_le :: "cell \<Rightarrow> cell \<Rightarrow> bool" where
  "fl_le a b = (fl_less a b \<or> (a = b \<and> a \<noteq> NaN \<and> \<not> is_Str a))"

subsection \<open>Python scalars\<close>

text \<open>
  The same values as operands of Python's own operators: a string operand raises
  TypeError, and a division by zero raises ZeroDivisionError whatever the numerator is.
  (Python accepts \<open>'ab' * 2\<close>; in every expression of the source the product then
  meets a float operator, which raises TypeError, so the product itself is given that
  error.)
\<close>

definition py_arith :: "(cell \<Rightarrow> cell \<Rightarrow> cell) \<Rightarrow> cell \<Rightarrow> cell \<Rightarrow> error + cell" where
  "py_arith f a b = (if is_Str a \<or> is_Str b then Inl TypeError else Inr (f a b))"

definition py_sub :: "cell \<Rightarrow> cell \<Rightarrow> error + cell" where
  "py_sub = py_arith fl_sub"

definition py_mul :: "cell \<Rightarrow> cell \<Rightarrow> error + cell" where
  "py_mul = py_arith fl_mul"

definition py_div :: "cell \<Rightarrow> cell \<Rightarrow> error + cell" where
  "py_div a b =
     (if is_Str a \<or> is_Str b then Inl TypeError
      else if b = Num 0 then Inl ZeroDivisionError
      else Inr (fl_div a b))"

text \<open>
  The builtins \<open>max(a, b)\<close> and \<open>min(a, b)\<close> keep the first argument unless the
  second is strictly greater (smaller): \<open>max(nan, 1)\<close> is \<open>nan\<close>, \<open>min(1, nan)\<close> is
  \<open>1\<close>.
\<close>

definition py_max :: "cell \<Rightarrow> cell \<Rightarrow> error + cell" where
  "py_max a b = bind_err (py_lt a b) (\<lambda>gt. Inr (if gt then b else a))"

definition py_min :: "cell \<Rightarrow> cell \<Rightarrow> error + cell" where
  "py_min a b = bind_err (py_lt b a) (\<lambda>lt. Inr (if lt then b else a))"

text \<open>Truthiness of a scalar: zero and the empty string are false, NaN is true.\<close>

definition py_truthy :: "cell \<Rightarrow> bool" where
  "py_truthy c = (c \<noteq> Num 0 \<and> c \<noteq> Str [])"

section \<open>Tables\<close>

text \<open>
  A pandas DataFrame: its number of rows and its columns in order, each a list of
  cells. A column is named once. Only the values are modelled: a column is numeric
  unless it holds a string, and arithmetic on a column that holds a string raises
  TypeError.
\<close>

record dataframe =
  nrows :: nat
  cols :: "(string \<times> cell list) list"

definition has_col :: "dataframe \<Rightarrow> string \<Rightarrow> bool" where
  "has_col df c = (map_of (cols df) c \<noteq> None)"

text \<open>\<open>df[c]\<close>: KeyError when the table has no such column.\<close>

definition get_col :: "dataframe \<Rightarrow> string \<Rightarrow> error + cell list" where
  "get_col df c = (case map_of (cols df) c of None \<Rightarrow> Inl (KeyError c) | Some xs \<Rightarrow> Inr xs)"

text \<open>\<open>df[c] = xs\<close> replaces the column where it stands, or appends it.\<close>

definition set_col :: "dataframe \<Rightarrow> string \<Rightarrow> cell list \<Rightarrow> dataframe" where
  "set_col df c xs = df\<lparr>cols := AList.update c xs (cols df)\<rparr>"

text \<open>\<open>df[c] = v\<close> for a scalar fills every row.\<close>

definition set_scalar :: "dataframe \<Rightarrow> string \<Rightarrow> cell \<Rightarrow> dataframe" where
  "set_scalar df c v = set_col df c (replicate (nrows df) v)"

definition has_Str :: "cell list \<Rightarrow> bool" where
  "has_Str xs = list_ex is_Str xs"

text \<open>Elementwise arithmetic of two columns, and of a column with a number.\<close>

definition series_div :: "cell list \<Rightarrow> cell list \<Rightarrow> error + cell list" where
  "series_div xs ys =
     (if has_Str xs \<or> has_Str ys then Inl TypeError else Inr (map2 fl_div xs ys))"

definition series_div_scalar :: "cell list \<Rightarrow> cell \<Rightarrow> error + cell list" where
  "series_div_scalar xs d =
     (if has_Str xs then Inl TypeError else Inr (map (\<lambda>x. fl_div x d) xs))"

text \<open>\<open>xs * 2\<close>: a string cell is repeated, as Python's \<open>'ab' * 2\<close> is.\<close>

definition series_times2 :: "cell list \<Rightarrow> cell list" where
  "series_times2 xs = map (\<lambda>x. case x of Str s \<Rightarrow> Str (s @ s) | c \<Rightarrow> fl_mul c (Num 2)) xs"

text \<open>The cell of a column at a row (a column too short has nothing there).\<close>

definition cell_at :: "cell list \<Rightarrow> nat \<Rightarrow> cell" where
  "cell_at xs i = (if i < length xs then xs ! i else NaN)"

text \<open>
  \<open>df[c] = values\<close> for a list or an array: ValueError unless there is one value for
  each row.
\<close>

definition assign_values :: "dataframe \<Rightarrow> string \<Rightarrow> cell list \<Rightarrow> error + dataframe" where
  "assign_values df c xs =
     (if length xs = nrows df then Inr (set_col df c xs)
      else Inl (ValueError ''Length of values does not match length of index''))"

text \<open>
  \<open>df.iterrows()\<close>: each row as a lookup from column names. When some column of
  the table holds a string, the row is a sequence of Python objects and arithmetic on
  its cells is Python's; when every column is numeric the cells are NumPy floats.
\<close>

definition row_of :: "dataframe \<Rightarrow> nat \<Rightarrow> (string \<times> cell) list" where
  "row_of df i = map (\<lambda>(c, xs). (c, cell_at xs i)) (cols df)"

definition iterrows :: "dataframe \<Rightarrow> (string \<times> cell) list list" where
  "iterrows df = map (row_of df) [0..<nrows df]"

definition object_rows :: "dataframe \<Rightarrow> bool" where
  "object_rows df = list_ex (\<lambda>(c, xs). has_Str xs) (cols df)"

text \<open>
  \<open>df.sort_values(c, ascending=False)\<close>: the rows by descending key, missing keys
  last. Rows with equal keys keep their order here; pandas promises no order among
  them. A key column that holds a string beside numbers cannot be compared and
  raises \<open>TypeError\<close>.
\<close>

fun desc_key :: "cell \<Rightarrow> nat \<times> real" where
  "desc_key PInf = (0, 0)"
| "desc_key (Num a) = (1, - a)"
| "desc_key NInf = (2, 0)"
| "desc_key c = (3, 0)"

definition take_rows :: "dataframe \<Rightarrow> nat list \<Rightarrow> dataframe" where
  "take_rows df is = \<lparr>nrows = length is, cols = map (\<lambda>(c, xs). (c, map (cell_at xs) is)) (cols df)\<rparr>"

definition sort_values_desc :: "dataframe \<Rightarrow> string \<Rightarrow> error + dataframe" where
  "sort_values_desc df c =
     bind_err (get_col df c) (\<lambda>ks.
       if has_Str ks then Inl TypeError
       else Inr (take_rows df (sort_key (\<lambda>i. desc_key (cell_at ks i)) [0..<nrows df])))"

text \<open>\<open>(xs > d).astype(int)\<close>\<close>

definition series_gt_scalar :: "cell list \<Rightarrow> cell \<Rightarrow> error + cell list" where
  "series_gt_scalar xs d =
     (if has_Str xs then Inl TypeError
      else Inr (map (\<lambda>x. if fl_less d x then Num 1 else Num 0) xs))"

definition fillna :: "cell \<Rightarrow> cell list \<Rightarrow> cell list" where
  "fillna v xs = map (\<lambda>x. if x = NaN then v else x) xs"

section \<open>Feature Engine\<close>

text \<open>
  \<open>pd.cut(xs, bins, labels)\<close> with explicit edges: a value in \<open>(lo, hi]\<close> gets the
  label of that interval, a value outside every interval and a missing value get NaN.
\<close>

fun cut_cell :: "cell list \<Rightarrow> string list \<Rightarrow> cell \<Rightarrow> cell" where
  "cut_cell (lo # hi # bins) (l # labels) x =
     (if fl_less lo x \<and> fl_le x hi then Str l else cut_cell (hi # bins) labels x)"
| "cut_cell bins labels x = NaN"

definition pd_cut :: "cell list \<Rightarrow> string list \<Rightarrow> cell list \<Rightarrow> error + cell list" where
  "pd_cut bins labels xs =
     (if has_Str xs then Inl TypeError else Inr (map (cut_cell bins labels) xs))"

text \<open>The median of a numeric column skips missing values; of none it is NaN.\<close>

fun asc_key :: "cell \<Rightarrow> nat \<times> real" where
  "asc_key NInf = (0, 0)"
| "asc_key (Num a) = (1, a)"
| "asc_key PInf = (2, 0)"
| "asc_key c = (3, 0)"

definition median :: "cell list \<Rightarrow> error + cell" where
  "median xs =
     (if has_Str xs then Inl TypeError
      else let vs = sort_key asc_key (filter (\<lambda>x. x \<noteq> NaN) xs); n = length vs
           in Inr (if n = 0 then NaN
                   else if odd n then vs ! (n div 2)
                   else fl_div (fl_add (vs ! (n div 2 - 1)) (vs ! (n div 2))) (Num 2)))"

text \<open>
  \<^verbatim>\<open>
  def engineer_features(self, data):
      df_features = data.copy()
      df_features['demand_variability'] = df_features['demand_variability'].fillna(0)
      df_features['price_category'] = pd.cut(df_features['price'],
          bins=[0, 20, 100, 500, float('inf')], labels=['Low', 'Medium', 'High', 'Premium'])
      df_features['demand_category'] = pd.cut(df_features['avg_daily_demand'],
          bins=[0, 10, 50, 100, float('inf')], labels=['Low', 'Medium', 'High', 'Very High'])
      df_features['stockout_rate'] = df_features['total_stockouts'] / 365
      df_features['is_fast_moving'] = (df_features['avg_daily_demand']
          > df_features['avg_daily_demand'].median()).astype(int)
      df_features['lead_time_risk'] = (df_features['supplier_lead_time'] > 7).astype(int)
      df_features['is_seasonal'] = (df_features['seasonal_factor'] > 1.5).astype(int)
      df_features['stock_health_score'] = (
          df_features['stock_coverage_days'] / df_features['supplier_lead_time'])
      return df_features
  \<close>
  Every \<open>df_features[c]\<close> on the right raises KeyError when the column is absent.
\<close>

definition engineer_features :: "dataframe \<Rightarrow> error + dataframe" where
  "engineer_features data =
     bind_err (get_col data ''demand_variability'') (\<lambda>dv.
     let df1 = set_col data ''demand_variability'' (fillna (Num 0) dv) in
     bind_err (get_col df1 ''price'') (\<lambda>price.
     bind_err (pd_cut [Num 0, Num 20, Num 100, Num 500, PInf]
                 [''Low'', ''Medium'', ''High'', ''Premium''] price) (\<lambda>pc.
     let df2 = set_col df1 ''price_category'' pc in
     bind_err (get_col df2 ''avg_daily_demand'') (\<lambda>avg.
     bind_err (pd_cut [Num 0, Num 10, Num 50, Num 100, PInf]
                 [''Low'', ''Medium'', ''High'', ''Very High''] avg) (\<lambda>dc.
     let df3 = set_col df2 ''demand_category'' dc in
     bind_err (get_col df3 ''total_stockouts'') (\<lambda>ts.
     bind_err (series_div_scalar ts (Num 365)) (\<lambda>rate.
     let df4 = set_col df3 ''stockout_rate'' rate in
     bind_err (get_col df4 ''avg_daily_demand'') (\<lambda>avg1.
     bind_err (get_col df4 ''avg_daily_demand'') (\<lambda>avg2.
     bind_err (median avg2) (\<lambda>med.
     bind_err (series_gt_scalar avg1 med) (\<lambda>fast.
     let df5 = set_col df4 ''is_fast_moving'' fast in
     bind_err (get_col df5 ''supplier_lead_time'') (\<lambda>lt.
     bind_err (series_gt_scalar lt (Num 7)) (\<lambda>ltr.
     let df6 = set_col df5 ''lead_time_risk'' ltr in
     bind_err (get_col df6 ''seasonal_factor'') (\<lambda>sf.
     bind_err (series_gt_scalar sf (Num 1.5)) (\<lambda>seas.
     let df7 = set_col df6 ''is_seasonal'' seas in
     bind_err (get_col df7 ''stock_coverage_days'') (\<lambda>cov.
     bind_err (get_col df7 ''supplier_lead_time'') (\<lambda>lt2.
     bind_err (series_div cov lt2) (\<lambda>health.
     Inr (set_col df7 ''stock_health_score'' health)))))))))))))))))))"

section \<open>Risk Model\<close>

subsection \<open>The library's part\<close>

text \<open>
  The classifier, the scaler and the fitting of a classifier belong to scikit-learn and
  are parameters here. An exception raised inside the library is a text, and reaches the
  program as a LibraryError, so that it is never confused with an exception the
  program raises itself.
\<close>

record classifier =
  clf_predict :: "dataframe \<Rightarrow> string + cell list"
  clf_predict_proba :: "dataframe \<Rightarrow> string + cell list"

type_synonym scaler_fn = "dataframe \<Rightarrow> string + dataframe"

definition lift_lib :: "string + 'a \<Rightarrow> error + 'a" where
  "lift_lib r = (case r of Inl s \<Rightarrow> Inl (LibraryError s) | Inr v \<Rightarrow> Inr v)"

text \<open>
  A LabelEncoder holds the sorted distinct labels it was fitted on; before fitting it
  has none, and reading them raises AttributeError.
\<close>

record label_encoder =
  le_classes :: "cell list option"

fun index_of :: "'a list \<Rightarrow> 'a \<Rightarrow> nat option" where
  "index_of [] y = None"
| "index_of (x # xs) y = (if x = y then Some 0 else map_option Suc (index_of xs y))"

fun map_err :: "('a \<Rightarrow> error + 'b) \<Rightarrow> 'a list \<Rightarrow> error + 'b list" where
  "map_err f [] = Inr []"
| "map_err f (x # xs) =
     bind_err (f x) (\<lambda>y. bind_err (map_err f xs) (\<lambda>ys. Inr (y # ys)))"

definition classes_of :: "label_encoder \<Rightarrow> error + cell list" where
  "classes_of enc = (case le_classes enc of None \<Rightarrow> Inl AttributeError | Some cs \<Rightarrow> Inr cs)"

text \<open>\<open>transform(ys)\<close>: the position of each label; a label never fitted raises.\<close>

definition le_transform :: "label_encoder \<Rightarrow> cell list \<Rightarrow> error + cell list" where
  "le_transform enc ys =
     bind_err (classes_of enc) (\<lambda>cs.
       map_err (\<lambda>y. case index_of cs y of
                       None \<Rightarrow> Inl (ValueError ''y contains previously unseen labels'')
                     | Some i \<Rightarrow> Inr (Num (real i))) ys)"

text \<open>
  \<open>fit_transform(xs)\<close>: the labels are the sorted distinct values, of strings or of
  numbers (a missing number last); a column that mixes both raises TypeError.
\<close>

fun str_of :: "cell \<Rightarrow> string" where
  "str_of (Str s) = s"
| "str_of c = []"

definition unique_labels :: "cell list \<Rightarrow> error + cell list" where
  "unique_labels xs =
     (if list_all is_Str xs then Inr (map Str (sort (remdups (map str_of xs))))
      else if has_Str xs then Inl TypeError
      else Inr (sort_key asc_key (remdups xs)))"

definition le_fit_transform :: "cell list \<Rightarrow> error + (label_encoder \<times> cell list)" where
  "le_fit_transform xs =
     bind_err (unique_labels xs) (\<lambda>cs.
       let enc = \<lparr>le_classes = Some cs\<rparr> in
       bind_err (le_transform enc xs) (\<lambda>codes. Inr (enc, codes)))"

subsection \<open>The model object\<close>

text \<open>
  \<^verbatim>\<open>
  class StockSenseModel:
      def __init__(self):
          self.model = None
          self.scaler = None
          self.encoders = {}
          self.feature_names = []
          self.is_trained = False
  \<close>
\<close>

record stocksense_model =
  model :: "classifier option"
  scaler :: "scaler_fn option"
  encoders :: "(string \<times> label_encoder) list"
  feature_names :: "string list"
  is_trained :: bool

definition init_model :: stocksense_model where
  "init_model = \<lparr>model = None, scaler = None, encoders = [], feature_names = [],
     is_trained = False\<rparr>"

definition categorical_cols :: "string list" where
  "categorical_cols = [''category'', ''subcategory'', ''price_category'', ''demand_category'']"

definition feature_cols :: "string list" where
  "feature_cols =
     [''price'', ''supplier_lead_time'', ''minimum_stock_level'', ''seasonal_factor'',
      ''avg_daily_demand'', ''demand_std'', ''max_daily_demand'', ''total_stockouts'',
      ''weekend_sales_ratio'', ''holiday_sales_ratio'', ''current_stock'',
      ''days_since_restock'', ''demand_variability'', ''stock_coverage_days'',
      ''category_encoded'', ''subcategory_encoded'', ''price_category_encoded'',
      ''demand_category_encoded'', ''stockout_rate'', ''is_fast_moving'',
      ''lead_time_risk'', ''is_seasonal'', ''stock_health_score'']"

text \<open>
  The loop of \<open>prepare_features\<close> over the categorical columns, when fitting:
  \<^verbatim>\<open>
  if col not in self.encoders:
      self.encoders[col] = LabelEncoder()
  df_model[f'{col}_encoded'] = self.encoders[col].fit_transform(df_model[col])
  \<close>
  The encoders are the object's state: they are returned as left at the moment an
  exception is raised. \<open>fit_transform\<close> reads the values of the column, whatever
  the type of the column is.
\<close>

fun encode_fit ::
  "(string \<times> label_encoder) list \<Rightarrow> string list \<Rightarrow> dataframe
     \<Rightarrow> (string \<times> label_encoder) list \<times> (error + dataframe)" where
  "encode_fit encs [] df = (encs, Inr df)"
| "encode_fit encs (col # rest) df =
     (let encs1 = (if map_of encs col = None
                   then AList.update col \<lparr>le_classes = None\<rparr> encs else encs)
      in case get_col df col of
           Inl e \<Rightarrow> (encs1, Inl e)
         | Inr xs \<Rightarrow>
             (case le_fit_transform xs of
                Inl e \<Rightarrow> (encs1, Inl e)
              | Inr (enc, codes) \<Rightarrow>
                  encode_fit (AList.update col enc encs1) rest
                    (set_col df (col @ ''_encoded'') codes)))"

text \<open>
  The same loop at inference:
  \<^verbatim>\<open>
  if col in self.encoders:
      # Handle unseen categories
      df_model[f'{col}_encoded'] = df_model[col].map(
          dict(zip(self.encoders[col].classes_,
                  self.encoders[col].transform(self.encoders[col].classes_)))
      ).fillna(-1)  # Assign -1 to unseen categories
  \<close>
  \<open>Series.map\<close> with a dictionary looks every cell up and gives NaN where the key is
  missing.
\<close>

definition map_dict :: "(cell \<times> cell) list \<Rightarrow> cell list \<Rightarrow> cell list" where
  "map_dict d xs = map (\<lambda>x. case map_of d x of None \<Rightarrow> NaN | Some c \<Rightarrow> c) xs"

text \<open>
  A column is read with its type. The two columns \<open>pd.cut\<close> writes are of the
  categorical type of pandas, which carries the labels given to \<open>pd.cut\<close> as its
  categories, whichever of them occur among the values.
  \<open>prepare_features\<close> is only called on the table \<open>engineer_features\<close> returns
  (lines 135 to 138 and 218 to 221 of model.py), so the type of a column is known from
  its name; every other column is a plain column of values, as the caller's table has
  it.
\<close>

datatype series = Plain "cell list" | Categorical "cell list" "cell list"

definition cut_labels :: "string \<Rightarrow> string list option" where
  "cut_labels col =
     (if col = ''price_category'' then Some [''Low'', ''Medium'', ''High'', ''Premium'']
      else if col = ''demand_category'' then Some [''Low'', ''Medium'', ''High'', ''Very High'']
      else None)"

definition get_series :: "dataframe \<Rightarrow> string \<Rightarrow> error + series" where
  "get_series df col =
     bind_err (get_col df col) (\<lambda>xs.
       Inr (case cut_labels col of
              None \<Rightarrow> Plain xs
            | Some labels \<Rightarrow> Categorical (map Str labels) xs))"

text \<open>
  \<open>map\<close> on a categorical column maps the categories. When every category has a key
  and no two get the same value, the result is categorical again, over the mapped
  categories; otherwise it is a plain column. The cells are mapped as in a plain column
  either way.
\<close>

definition map_series :: "(cell \<times> cell) list \<Rightarrow> series \<Rightarrow> series" where
  "map_series d s =
     (case s of
        Plain xs \<Rightarrow> Plain (map_dict d xs)
      | Categorical cats xs \<Rightarrow>
          (let new_cats = map_dict d cats
           in if distinct new_cats \<and> NaN \<notin> set new_cats
              then Categorical new_cats (map_dict d xs)
              else Plain (map_dict d xs)))"

text \<open>
  \<open>fillna(v)\<close> on a categorical column accepts only a category as \<open>v\<close>; any other
  value raises, also when no cell is missing (TypeError
  \<open>Cannot setitem on a Categorical with a new category\<close> in pandas 1.5 and 2, a
  ValueError in older versions).
\<close>

definition fillna_series :: "cell \<Rightarrow> series \<Rightarrow> error + cell list" where
  "fillna_series v s =
     (case s of
        Plain xs \<Rightarrow> Inr (fillna v xs)
      | Categorical cats xs \<Rightarrow> if v \<in> set cats then Inr (fillna v xs) else Inl TypeError)"

fun encode_inference ::
  "(string \<times> label_encoder) list \<Rightarrow> string list \<Rightarrow> dataframe \<Rightarrow> error + dataframe" where
  "encode_inference encs [] df = Inr df"
| "encode_inference encs (col # rest) df =
     (case map_of encs col of
        None \<Rightarrow> encode_inference encs rest df
      | Some enc \<Rightarrow>
          bind_err (get_series df col) (\<lambda>s.
          bind_err (classes_of enc) (\<lambda>cs.
          bind_err (le_transform enc cs) (\<lambda>codes.
          bind_err (fillna_series (Num (- 1)) (map_series (zip cs codes) s)) (\<lambda>encoded.
            encode_inference encs rest (set_col df (col @ ''_encoded'') encoded))))))"

text \<open>\<open>df_model[available_cols]\<close>: the feature columns the table has, in the fixed order.\<close>

definition available_cols :: "dataframe \<Rightarrow> string list" where
  "available_cols df = filter (has_col df) feature_cols"

definition select_features :: "dataframe \<Rightarrow> dataframe" where
  "select_features df =
     df\<lparr>cols := List.map_filter (\<lambda>c. map_option (Pair c) (map_of (cols df) c)) feature_cols\<rparr>"

text \<open>
  \<open>prepare_features(data, fit_encoders)\<close> returns the object as it leaves it and either
  the exception or \<open>(X, available_cols)\<close>.
\<close>

definition prepare_features ::
  "stocksense_model \<Rightarrow> dataframe \<Rightarrow> bool
     \<Rightarrow> stocksense_model \<times> (error + dataframe \<times> string list)" where
  "prepare_features m data fit_encoders =
     (if fit_encoders then
        (case encode_fit (encoders m) categorical_cols data of
           (encs, Inl e) \<Rightarrow> (m\<lparr>encoders := encs\<rparr>, Inl e)
         | (encs, Inr df_model) \<Rightarrow>
             (m\<lparr>encoders := encs, feature_names := available_cols df_model\<rparr>,
              Inr (select_features df_model, available_cols df_model)))
      else
        (case encode_inference (encoders m) categorical_cols data of
           Inl e \<Rightarrow> (m, Inl e)
         | Inr df_model \<Rightarrow> (m, Inr (select_features df_model, available_cols df_model))))"

text \<open>
  \<^verbatim>\<open>
  def predict(self, data):
      if not self.is_trained:
          raise ValueError("Model must be trained before making predictions")
      data_engineered = self.engineer_features(data)
      X, _ = self.prepare_features(data_engineered, fit_encoders=False)
      if self.scaler:
          X = self.scaler.transform(X)
      predictions = self.model.predict(X)
      probabilities = self.model.predict_proba(X)[:, 1]
      return predictions, probabilities
  \<close>
  The model is returned with the result, as \<open>prepare_features\<close> leaves it.
\<close>

definition not_trained_error :: error where
  "not_trained_error = ValueError ''Model must be trained before making predictions''"

definition predict ::
  "stocksense_model \<Rightarrow> dataframe \<Rightarrow> stocksense_model \<times> (error + cell list \<times> cell list)" where
  "predict m data =
     (if \<not> is_trained m then (m, Inl not_trained_error)
      else case engineer_features data of
        Inl e \<Rightarrow> (m, Inl e)
      | Inr data_engineered \<Rightarrow>
          (case prepare_features m data_engineered False of
             (m1, Inl e) \<Rightarrow> (m1, Inl e)
           | (m1, Inr (X, names)) \<Rightarrow>
               (m1,
                bind_err (case scaler m1 of None \<Rightarrow> Inr X | Some sc \<Rightarrow> lift_lib (sc X)) (\<lambda>X1.
                case model m1 of
                  None \<Rightarrow> Inl AttributeError
                | Some clf \<Rightarrow>
                    bind_err (lift_lib (clf_predict clf X1)) (\<lambda>predictions.
                    bind_err (lift_lib (clf_predict_proba clf X1)) (\<lambda>probabilities.
                      Inr (predictions, probabilities)))))))"

text \<open>
  \<open>train(data, target_column, model_type)\<close>. Lines 141 to 194 of model.py (the split,
  the fitting of the chosen classifier and scaler, the metrics and the report) are the
  library's: \<open>fit\<close> stands for them. It gets the attributes \<open>model\<close> and \<open>scaler\<close> as
  they are and returns them as the lines leave them, with the exception they raised or
  the metrics \<open>(auc_score, accuracy)\<close>. Only after them comes
  \<^verbatim>\<open>
      self.is_trained = True
      return {'auc_score': auc_score, 'accuracy': accuracy, 'model_type': model_type}
  \<close>
\<close>

type_synonym fit_fn =
  "string \<Rightarrow> dataframe \<Rightarrow> cell list \<Rightarrow> classifier option \<Rightarrow> scaler_fn option
     \<Rightarrow> (classifier option \<times> scaler_fn option) \<times> (string + cell \<times> cell)"

record training_report =
  auc_score :: cell
  accuracy :: cell
  model_type :: string

definition train ::
  "fit_fn \<Rightarrow> stocksense_model \<Rightarrow> dataframe \<Rightarrow> string \<Rightarrow> string
     \<Rightarrow> stocksense_model \<times> (error + training_report)" where
  "train fit m data target_column mtype =
     (case engineer_features data of
        Inl e \<Rightarrow> (m, Inl e)
      | Inr data_engineered \<Rightarrow>
          (case prepare_features m data_engineered True of
             (m1, Inl e) \<Rightarrow> (m1, Inl e)
           | (m1, Inr (X, names)) \<Rightarrow>
               (case get_col data_engineered target_column of
                  Inl e \<Rightarrow> (m1, Inl e)
                | Inr y \<Rightarrow>
                    (case fit mtype X y (model m1) (scaler m1) of
                       ((mo, sc), Inl s) \<Rightarrow> (m1\<lparr>model := mo, scaler := sc\<rparr>, Inl (LibraryError s))
                     | ((mo, sc), Inr (auc, acc)) \<Rightarrow>
                         (m1\<lparr>model := mo, scaler := sc, is_trained := True\<rparr>,
                          Inr \<lparr>auc_score = auc, accuracy = acc, model_type = mtype\<rparr>)))))"

text \<open>
  The artifact file: a dictionary with the keys \<open>model\<close>, \<open>scaler\<close>, \<open>encoders\<close>,
  \<open>feature_names\<close> (and a timestamp nothing reads). A key may be missing from a file
  written by something else.
  \<^verbatim>\<open>
  def load_model(self, filepath):
      model_data = joblib.load(filepath)
      self.model = model_data['model']
      self.scaler = model_data.get('scaler')
      self.encoders = model_data['encoders']
      self.feature_names = model_data['feature_names']
      self.is_trained = True
  \<close>
  \<open>joblib.load\<close> is the library's: its result, or the exception it raised, is the
  argument.
\<close>

record model_data =
  md_model :: "classifier option"
  md_scaler :: "scaler_fn option"
  md_encoders :: "(string \<times> label_encoder) list option"
  md_feature_names :: "string list option"

definition load_model ::
  "stocksense_model \<Rightarrow> string + model_data \<Rightarrow> stocksense_model \<times> (error + unit)" where
  "load_model m loaded =
     (case loaded of
        Inl s \<Rightarrow> (m, Inl (LibraryError s))
      | Inr md \<Rightarrow>
          (case md_model md of
             None \<Rightarrow> (m, Inl (KeyError ''model''))
           | Some mo \<Rightarrow>
               (let m1 = m\<lparr>model := Some mo, scaler := md_scaler md\<rparr>
                in case md_encoders md of
                     None \<Rightarrow> (m1, Inl (KeyError ''encoders''))
                   | Some encs \<Rightarrow>
                       (let m2 = m1\<lparr>encoders := encs\<rparr>
                        in case md_feature_names md of
                             None \<Rightarrow> (m2, Inl (KeyError ''feature_names''))
                           | Some fns \<Rightarrow>
                               (m2\<lparr>feature_names := fns, is_trained := True\<rparr>, Inr ())))))"

text \<open>
  A history of a model object: calls of \<open>train\<close>, \<open>load_model\<close> and \<open>predict\<close> in
  any order, from a fresh object. \<open>run\<close> returns the object and whether some
  \<open>train\<close> or \<open>load_model\<close> of the history has completed without an exception.
\<close>

datatype model_call =
    Train dataframe string string
  | Load "string + model_data"
  | Predict dataframe

fun call :: "fit_fn \<Rightarrow> stocksense_model \<Rightarrow> model_call \<Rightarrow> stocksense_model \<times> bool" where
  "call fit m (Train data target_column mtype) =
     (case train fit m data target_column mtype of
        (m1, Inl e) \<Rightarrow> (m1, False) | (m1, Inr r) \<Rightarrow> (m1, True))"
| "call fit m (Load loaded) =
     (case load_model m loaded of
        (m1, Inl e) \<Rightarrow> (m1, False) | (m1, Inr u) \<Rightarrow> (m1, True))"
| "call fit m (Predict data) = (fst (predict m data), False)"

fun run :: "fit_fn \<Rightarrow> stocksense_model \<Rightarrow> model_call list \<Rightarrow> stocksense_model \<times> bool" where
  "run fit m [] = (m, False)"
| "run fit m (c # cs) =
     (case call fit m c of
        (m1, done1) \<Rightarrow> (case run fit m1 cs of (m2, done2) \<Rightarrow> (m2, done1 \<or> done2)))"

section \<open>Prediction Service\<close>

subsection \<open>Preparing the data\<close>

text \<open>
  The sales history is a table of daily observations; each row has the three columns the
  aggregation reads, and its numbers are finite.
\<close>

record sale =
  sale_product_id :: string
  daily_demand :: real
  stockout :: real

record sales_aggregate =
  agg_avg :: cell
  agg_std :: cell
  agg_max :: cell
  agg_stockouts :: cell

definition mean :: "real list \<Rightarrow> real" where
  "mean xs = sum_list xs / real (length xs)"

text \<open>The sample standard deviation of pandas (\<open>ddof=1\<close>): NaN for fewer than two values.\<close>

definition sample_std :: "real list \<Rightarrow> cell" where
  "sample_std xs =
     (if length xs < 2 then NaN
      else Num (sqrt (sum_list (map (\<lambda>x. (x - mean xs)\<^sup>2) xs) / real (length xs - 1))))"

definition list_max :: "real list \<Rightarrow> cell" where
  "list_max xs = (case xs of [] \<Rightarrow> NaN | x # rest \<Rightarrow> Num (fold max rest x))"

text \<open>
  \<^verbatim>\<open>
  sales_agg = sales_history.groupby('product_id').agg({
      'daily_demand': ['mean', 'std', 'max'], 'stockout': 'sum'}).reset_index()
  sales_agg.columns = ['product_id', 'avg_daily_demand', 'demand_std',
                       'max_daily_demand', 'total_stockouts']
  \<close>
  One row for each product of the history.
\<close>

definition aggregate :: "sale list \<Rightarrow> string \<Rightarrow> sales_aggregate" where
  "aggregate sh pid =
     (let obs = filter (\<lambda>s. sale_product_id s = pid) sh; ds = map daily_demand obs
      in \<lparr>agg_avg = Num (mean ds), agg_std = sample_std ds, agg_max = list_max ds,
          agg_stockouts = Num (sum_list (map stockout obs))\<rparr>)"

definition sales_agg :: "sale list \<Rightarrow> (string \<times> sales_aggregate) list" where
  "sales_agg sh = map (\<lambda>pid. (pid, aggregate sh pid)) (sort (remdups (map sale_product_id sh)))"

definition agg_columns :: "(string \<times> (sales_aggregate \<Rightarrow> cell)) list" where
  "agg_columns =
     [(''avg_daily_demand'', agg_avg), (''demand_std'', agg_std),
      (''max_daily_demand'', agg_max), (''total_stockouts'', agg_stockouts)]"

text \<open>
  \<open>df.merge(sales_agg, on='product_id', how='left')\<close>: every row of the inventory
  is kept, with the aggregate of its product or, when the history has none, NaN in
  each of the four columns. A column name that both tables have (other than the key)
  is kept twice, with the suffixes \<open>_x\<close> (the inventory's) and \<open>_y\<close> (the
  aggregate's). Product identifiers are strings; a key that is not one matches nothing.
\<close>

definition merge_left ::
  "dataframe \<Rightarrow> (string \<times> sales_aggregate) list \<Rightarrow> error + dataframe" where
  "merge_left df agg =
     bind_err (get_col df ''product_id'') (\<lambda>keys.
       let overlap = filter (has_col df) (map fst agg_columns);
           found = map (\<lambda>k. case k of Str pid \<Rightarrow> map_of agg pid | c \<Rightarrow> None) keys;
           left = map (\<lambda>(c, xs). (if c \<in> set overlap then c @ ''_x'' else c, xs)) (cols df);
           right = map (\<lambda>(c, sel).
                      (if c \<in> set overlap then c @ ''_y'' else c,
                       map (\<lambda>r. case r of None \<Rightarrow> NaN | Some a \<Rightarrow> sel a) found))
                     agg_columns
       in Inr (df\<lparr>cols := left @ right\<rparr>))"

definition default_features :: "(string \<times> cell) list" where
  "default_features =
     [(''price'', Num 50), (''category'', Str ''General''), (''subcategory'', Str ''General''),
      (''seasonal_factor'', Num 1), (''weekend_sales_ratio'', Num 0.5),
      (''holiday_sales_ratio'', Num 0.5)]"

definition default_col :: "string \<Rightarrow> cell \<Rightarrow> dataframe \<Rightarrow> dataframe" where
  "default_col c v df = (if has_col df c then df else set_scalar df c v)"

text \<open>
  \<^verbatim>\<open>
  def prepare_prediction_data(self, inventory_data, sales_history=None):
      df = inventory_data.copy()
      if sales_history is not None:
          sales_agg = ...
          df = df.merge(sales_agg, on='product_id', how='left')
      # Fill missing values with defaults if sales history not available
      if 'avg_daily_demand' not in df.columns:
          df['avg_daily_demand'] = 10.0  # Default demand
      if 'demand_std' not in df.columns:
          df['demand_std'] = 2.0  # Default variability
      if 'max_daily_demand' not in df.columns:
          df['max_daily_demand'] = df['avg_daily_demand'] * 2
      if 'total_stockouts' not in df.columns:
          df['total_stockouts'] = 0
      # Engineer features similar to training
      df['demand_variability'] = df['demand_std'] / df['avg_daily_demand']
      df['stock_coverage_days'] = df['current_stock'] / df['avg_daily_demand']
      df['stockout_rate'] = df['total_stockouts'] / 365
      for feature in required_features:
          if feature not in df.columns:
              df[feature] = (50.0 | 'General' | 1.0 | 0.5)
      return df
  \<close>
\<close>

definition prepare_prediction_data :: "dataframe \<Rightarrow> sale list option \<Rightarrow> error + dataframe" where
  "prepare_prediction_data inventory_data sales_history =
     bind_err (case sales_history of
                 None \<Rightarrow> Inr inventory_data
               | Some sh \<Rightarrow> merge_left inventory_data (sales_agg sh)) (\<lambda>df0.
     let df1 = default_col ''avg_daily_demand'' (Num 10) df0;
         df2 = default_col ''demand_std'' (Num 2) df1 in
     bind_err (if has_col df2 ''max_daily_demand'' then Inr df2
               else bind_err (get_col df2 ''avg_daily_demand'') (\<lambda>avg.
                      Inr (set_col df2 ''max_daily_demand'' (series_times2 avg)))) (\<lambda>df3.
     let df4 = default_col ''total_stockouts'' (Num 0) df3 in
     bind_err (get_col df4 ''demand_std'') (\<lambda>std.
     bind_err (get_col df4 ''avg_daily_demand'') (\<lambda>avg.
     bind_err (series_div std avg) (\<lambda>variability.
     let df5 = set_col df4 ''demand_variability'' variability in
     bind_err (get_col df5 ''current_stock'') (\<lambda>stock.
     bind_err (get_col df5 ''avg_daily_demand'') (\<lambda>avg1.
     bind_err (series_div stock avg1) (\<lambda>coverage.
     let df6 = set_col df5 ''stock_coverage_days'' coverage in
     bind_err (get_col df6 ''total_stockouts'') (\<lambda>ts.
     bind_err (series_div_scalar ts (Num 365)) (\<lambda>rate.
     let df7 = set_col df6 ''stockout_rate'' rate in
     Inr (fold (\<lambda>(c, v). default_col c v) default_features df7)))))))))))"

subsection \<open>The fallback\<close>

text \<open>
  \<^verbatim>\<open>
  stock_days = row.get('current_stock', 0) / max(row.get('avg_daily_demand', 1), 1)
  lead_time = row.get('supplier_lead_time', 7)
  risk_score = max(0, min(1, 1 - (stock_days / (lead_time * 2))))
  probabilities.append(risk_score)
  predictions.append(1 if risk_score > 0.5 else 0)
  \<close>
  in \<open>predict_batch\<close>, and the same lines on \<open>product_data\<close> in
  \<open>predict_single_product\<close>. \<open>python\<close> says whether the values are Python objects
  (a division by zero raises) or NumPy floats (it does not).
\<close>

definition dict_get :: "(string \<times> cell) list \<Rightarrow> string \<Rightarrow> cell \<Rightarrow> cell" where
  "dict_get d k dflt = (case map_of d k of None \<Rightarrow> dflt | Some v \<Rightarrow> v)"

definition scalar_div :: "bool \<Rightarrow> cell \<Rightarrow> cell \<Rightarrow> error + cell" where
  "scalar_div python a b = (if python then py_div a b else Inr (fl_div a b))"

definition fallback_prediction :: "bool \<Rightarrow> (string \<times> cell) list \<Rightarrow> error + cell \<times> cell" where
  "fallback_prediction python d =
     bind_err (py_max (dict_get d ''avg_daily_demand'' (Num 1)) (Num 1)) (\<lambda>demand.
     bind_err (scalar_div python (dict_get d ''current_stock'' (Num 0)) demand) (\<lambda>stock_days.
     let lead_time = dict_get d ''supplier_lead_time'' (Num 7) in
     bind_err (py_mul lead_time (Num 2)) (\<lambda>twice.
     bind_err (scalar_div python stock_days twice) (\<lambda>ratio.
     bind_err (py_sub (Num 1) ratio) (\<lambda>x.
     bind_err (py_min (Num 1) x) (\<lambda>capped.
     bind_err (py_max (Num 0) capped) (\<lambda>risk_score.
     bind_err (py_lt (Num 0.5) risk_score) (\<lambda>high.
       Inr (risk_score, if high then Num 1 else Num 0)))))))))"

subsection \<open>Risk categories\<close>

text \<open>
  \<^verbatim>\<open>
  def _categorize_risk(self, risk_score):
      if risk_score < 0.3:   return 'Low Risk'
      elif risk_score < 0.7: return 'Medium Risk'
      else:                  return 'High Risk'
  \<close>
\<close>

definition categorize_risk :: "cell \<Rightarrow> error + string" where
  "categorize_risk risk_score =
     bind_err (py_lt risk_score (Num 0.3)) (\<lambda>low.
       if low then Inr ''Low Risk''
       else bind_err (py_lt risk_score (Num 0.7)) (\<lambda>medium.
         if medium then Inr ''Medium Risk'' else Inr ''High Risk''))"

subsection \<open>Recommendations\<close>



subsection \<open>Predictions\<close>

text \<open>
  The try block of both prediction functions: a model object is filled from the loaded
  artifact, marked trained, and asked to predict.
  \<^verbatim>\<open>
  temp_model = StockSenseModel()
  temp_model.model = self.model_data['model']
  temp_model.scaler = self.model_data.get('scaler')
  temp_model.encoders = self.model_data['encoders']
  temp_model.feature_names = self.model_data['feature_names']
  temp_model.is_trained = True
  predictions, probabilities = temp_model.predict(df_prepared)
  \<close>
\<close>

definition model_path :: "model_data \<Rightarrow> dataframe \<Rightarrow> error + cell list \<times> cell list" where
  "model_path md df_prepared =
     (case md_model md of
        None \<Rightarrow> Inl (KeyError ''model'')
      | Some mo \<Rightarrow>
          (case md_encoders md of
             None \<Rightarrow> Inl (KeyError ''encoders'')
           | Some encs \<Rightarrow>
               (case md_feature_names md of
                  None \<Rightarrow> Inl (KeyError ''feature_names'')
                | Some fns \<Rightarrow>
                    snd (predict \<lparr>model = Some mo, scaler = md_scaler md, encoders = encs,
                                   feature_names = fns, is_trained = True\<rparr> df_prepared))))"

text \<open>An artifact file that holds a dictionary without any of the keys.\<close>

definition empty_artifact :: model_data where
  "empty_artifact = \<lparr>md_model = None, md_scaler = None, md_encoders = None,
     md_feature_names = None\<rparr>"




text \<open>
  \<^verbatim>\<open>
  def predict_batch(self, inventory_data, sales_history=None):
      df_prepared = self.prepare_prediction_data(inventory_data, sales_history)
      try:
          ... predictions, probabilities = temp_model.predict(df_prepared)
      except Exception as e:
          predictions = []
          probabilities = []
          for _, row in df_prepared.iterrows():
              ... (the fallback)
      results = inventory_data.copy()
      results['risk_score'] = probabilities
      results['risk_prediction'] = predictions
      results['risk_level'] = ['High' if p == 1 else 'Low' for p in predictions]
      results['risk_category'] = [self._categorize_risk(score) for score in probabilities]
      results['prediction_timestamp'] = datetime.now().isoformat()
      results = results.sort_values('risk_score', ascending=False)
      logger.info(f"... High risk products: {sum(predictions)}")
      return results
  \<close>
\<close>

definition fallback_batch :: "dataframe \<Rightarrow> error + cell list \<times> cell list" where
  "fallback_batch df_prepared =
     bind_err (map_err (fallback_prediction (object_rows df_prepared)) (iterrows df_prepared))
       (\<lambda>rs. Inr (map snd rs, map fst rs))"

definition py_sum :: "cell list \<Rightarrow> error + cell" where
  "py_sum xs = (if has_Str xs then Inl TypeError else Inr (fold (\<lambda>x acc. fl_add acc x) xs (Num 0)))"

definition predict_batch ::
  "model_data \<Rightarrow> string \<Rightarrow> dataframe \<Rightarrow> sale list option \<Rightarrow> error + dataframe" where
  "predict_batch md now inventory_data sales_history =
     bind_err (prepare_prediction_data inventory_data sales_history) (\<lambda>df_prepared.
     bind_err (case model_path md df_prepared of
                 Inr r \<Rightarrow> Inr r
               | Inl e \<Rightarrow> fallback_batch df_prepared) (\<lambda>(predictions, probabilities).
     bind_err (assign_values inventory_data ''risk_score'' probabilities) (\<lambda>r1.
     bind_err (assign_values r1 ''risk_prediction'' predictions) (\<lambda>r2.
     bind_err (assign_values r2 ''risk_level''
                 (map (\<lambda>p. if p = Num 1 then Str ''High'' else Str ''Low'') predictions)) (\<lambda>r3.
     bind_err (map_err categorize_risk probabilities) (\<lambda>categories.
     bind_err (assign_values r3 ''risk_category'' (map Str categories)) (\<lambda>r4.
     let r5 = set_scalar r4 ''prediction_timestamp'' (Str now) in
     bind_err (sort_values_desc r5 ''risk_score'') (\<lambda>results.
     bind_err (py_sum predictions) (\<lambda>logged.
       Inr results)))))))))"

subsection \<open>The dashboard\<close>

text \<open>
  \<^verbatim>\<open>
  def generate_dashboard_data(self, inventory_data):
      predictions = self.predict_batch(inventory_data)
      total_products = len(predictions)
      high_risk_count = sum(predictions['risk_prediction'])
      medium_risk_count = sum(predictions['risk_score'].between(0.3, 0.7))
      low_risk_count = total_products - high_risk_count - medium_risk_count
      risk_distribution = {'High Risk': high_risk_count,
                           'Medium Risk': medium_risk_count, 'Low Risk': low_risk_count}
      top_risk_products = predictions.head(10)[['product_id', 'current_stock',
          'avg_daily_demand', 'risk_score', 'risk_category']].to_dict('records')
      ...
      return {..., 'summary': {'total_products': total_products,
                  'high_risk_products': high_risk_count,
                  'risk_percentage': round(high_risk_count / total_products * 100, 1)},
              'risk_distribution': risk_distribution,
              'top_risk_products': top_risk_products, ...,
              'alerts': self._generate_alerts(predictions)}
  \<close>
  \<open>between\<close> includes both ends. The selection of the five columns raises KeyError
  when one is absent, and the percentage divides by the number of products. Left out of
  the result: the timestamp, the rounded percentage and the per-category means.
\<close>

record risk_distribution =
  high_risk :: cell
  medium_risk :: cell
  low_risk :: cell

datatype alert = Critical cell | LowStock cell

record dashboard =
  total_products :: nat
  high_risk_products :: cell
  distribution :: risk_distribution
  top_risk_products :: "(string \<times> cell) list list"
  alerts :: "alert list"

definition between_count :: "cell \<Rightarrow> cell \<Rightarrow> cell list \<Rightarrow> error + cell" where
  "between_count lo hi xs =
     (if has_Str xs then Inl TypeError
      else Inr (Num (real (length (filter (\<lambda>x. fl_le lo x \<and> fl_le x hi) xs)))))"

definition top_columns :: "string list" where
  "top_columns = [''product_id'', ''current_stock'', ''avg_daily_demand'', ''risk_score'',
     ''risk_category'']"

definition select_top :: "dataframe \<Rightarrow> error + (string \<times> cell) list list" where
  "select_top predictions =
     (case filter (\<lambda>c. \<not> has_col predictions c) top_columns of
        c # cs \<Rightarrow> Inl (KeyError c)
      | [] \<Rightarrow> Inr (map (\<lambda>r. filter (\<lambda>(c, v). c \<in> set top_columns) r)
                    (take 10 (iterrows predictions))))"

text \<open>
  \<open>_generate_alerts\<close>: a critical alert for each row with a score above 0.8, then a
  low-stock alert for each row below its minimum stock level when both columns are
  there; the first ten.
\<close>

definition generate_alerts :: "dataframe \<Rightarrow> error + alert list" where
  "generate_alerts predictions =
     bind_err (get_col predictions ''risk_score'') (\<lambda>scores.
     bind_err (series_gt_scalar scores (Num 0.8)) (\<lambda>crit.
     let rows = iterrows predictions;
         pid = (\<lambda>r. dict_get r ''product_id'' (Str ''Unknown''));
         critical = map (\<lambda>(r, c). Critical (pid r)) (filter (\<lambda>(r, c). c = Num 1) (zip rows crit))
     in
     bind_err (if has_col predictions ''current_stock'' \<and> has_col predictions ''minimum_stock_level''
               then bind_err (get_col predictions ''current_stock'') (\<lambda>stock.
                    bind_err (get_col predictions ''minimum_stock_level'') (\<lambda>minimum.
                    bind_err (map_err (\<lambda>(a, b). py_lt a b) (zip stock minimum)) (\<lambda>low.
                      Inr (map (\<lambda>(r, l). LowStock (pid r)) (filter snd (zip rows low))))))
               else Inr []) (\<lambda>low_stock.
       Inr (take 10 (critical @ low_stock)))))"

definition generate_dashboard_data ::
  "model_data \<Rightarrow> string \<Rightarrow> dataframe \<Rightarrow> error + dashboard" where
  "generate_dashboard_data md now inventory_data =
     bind_err (predict_batch md now inventory_data None) (\<lambda>predictions.
     let total = Num (real (nrows predictions)) in
     bind_err (get_col predictions ''risk_prediction'') (\<lambda>labels.
     bind_err (py_sum labels) (\<lambda>high_risk_count.
     bind_err (get_col predictions ''risk_score'') (\<lambda>scores.
     bind_err (between_count (Num 0.3) (Num 0.7) scores) (\<lambda>medium_risk_count.
     bind_err (py_sub total high_risk_count) (\<lambda>rest.
     bind_err (py_sub rest medium_risk_count) (\<lambda>low_risk_count.
     bind_err (select_top predictions) (\<lambda>top10.
     bind_err (py_div high_risk_count total) (\<lambda>share.
     bind_err (generate_alerts predictions) (\<lambda>al.
       Inr \<lparr>total_products = nrows predictions,
            high_risk_products = high_risk_count,
            distribution = \<lparr>high_risk = high_risk_count, medium_risk = medium_risk_count,
                             low_risk = low_risk_count\<rparr>,
            top_risk_products = top10,
            alerts = al\<rparr>))))))))))"

section \<open>The formulas of the specification\<close>




section \<open>Notions used in the properties\<close>

text \<open>\<open>raises_only P r\<close>: when the computation raises, the exception satisfies \<open>P\<close>.\<close>

definition raises_only :: "(error \<Rightarrow> bool) \<Rightarrow> error + 'a \<Rightarrow> bool" where
  "raises_only P r = (case r of Inl e \<Rightarrow> P e | Inr v \<Rightarrow> True)"

definition column_error :: "error \<Rightarrow> bool" where
  "column_error e = (e = TypeError \<or> (\<exists>c. e = KeyError c))"

text \<open>
  The columns \<open>engineer_features\<close> reads, in the order in which it reads them, and
  what it is for a column to be numeric: when the table has it, it holds no string
  (its cells are numbers, infinities or NaN; it may have no rows).
\<close>

definition required_columns :: "string list" where
  "required_columns = [''demand_variability'', ''price'', ''avg_daily_demand'',
     ''total_stockouts'', ''supplier_lead_time'', ''seasonal_factor'', ''stock_coverage_days'']"

definition numeric_col :: "dataframe \<Rightarrow> string \<Rightarrow> bool" where
  "numeric_col df c = (case get_col df c of Inl e \<Rightarrow> True | Inr xs \<Rightarrow> \<not> has_Str xs)"




text \<open>
  The stock coverage as the specification's Feature Engine section words it:
  \<open>current_stock / avg_daily_demand\<close>, treating \<open>avg_daily_demand < 1\<close> as 1.
\<close>

definition spec_stock_coverage_days :: "real \<Rightarrow> real \<Rightarrow> real" where
  "spec_stock_coverage_days current_stock avg_daily_demand =
     current_stock / (if avg_daily_demand < 1 then 1 else avg_daily_demand)"

text \<open>
  The column a left join adds for one field of the aggregate: for each key of the
  inventory the field of its product's aggregate, NaN where the history has no such
  product.
\<close>

definition joined :: "(string \<times> sales_aggregate) list \<Rightarrow> cell list \<Rightarrow> (sales_aggregate \<Rightarrow> cell) \<Rightarrow> cell list" where
  "joined agg keys sel =
     map (\<lambda>r. case r of None \<Rightarrow> NaN | Some a \<Rightarrow> sel a)
       (map (\<lambda>k. case k of Str pid \<Rightarrow> map_of agg pid | c \<Rightarrow> None) keys)"

section \<open>Properties\<close>

subsection \<open>Evaluating the error monad and the tables\<close>

lemma bind_err_Inl [simp]: "bind_err (Inl e) f = Inl e"
  by (simp add: bind_err_def)

lemma bind_err_Inr [simp]: "bind_err (Inr v) f = f v"
  by (simp add: bind_err_def)

text \<open>The continuation is simplified only once the first computation is a result.\<close>

lemma bind_err_cong [cong]: "r = r' \<Longrightarrow> bind_err r f = bind_err r' f"
  by simp

lemma bind_err_eq_Inr: "bind_err r f = Inr y \<longleftrightarrow> (\<exists>v. r = Inr v \<and> f v = Inr y)"
  by (cases r) simp_all

lemmas table_defs = default_col_def has_col_def set_scalar_def set_col_def get_col_def
  series_div_def series_div_scalar_def series_gt_scalar_def series_times2_def has_Str_def
  assign_values_def iterrows_def row_of_def cell_at_def object_rows_def take_rows_def
  sort_values_desc_def default_features_def

lemmas scalar_defs = py_max_def py_min_def py_div_def py_mul_def py_sub_def py_arith_def
  fl_sub_def fl_inf_def fl_le_def scalar_div_def dict_get_def py_sum_def py_truthy_def

lemma nrows_set_col [simp]: "nrows (set_col df c xs) = nrows df"
  by (simp add: set_col_def)

lemma nrows_set_scalar [simp]: "nrows (set_scalar df c v) = nrows df"
  by (simp add: set_scalar_def)

lemma get_col_set_col: "get_col (set_col df c xs) c' = (if c' = c then Inr xs else get_col df c')"
  by (simp add: get_col_def set_col_def update_conv')

lemma has_col_set_col: "has_col (set_col df c xs) c' = (c' = c \<or> has_col df c')"
  by (simp add: has_col_def set_col_def update_conv')

lemma has_col_iff_get_col: "has_col df c = (\<exists>xs. get_col df c = Inr xs)"
  by (simp add: has_col_def get_col_def split: option.splits)

lemma get_col_absent: "\<not> has_col df c \<Longrightarrow> get_col df c = Inl (KeyError c)"
  by (simp add: has_col_def get_col_def)

lemma assign_values_eq_Inr:
  "assign_values df c xs = Inr r \<longleftrightarrow> length xs = nrows df \<and> r = set_col df c xs"
  by (auto simp: assign_values_def)

subsection \<open>Which exceptions a computation can raise\<close>

lemma raises_only_Inr [simp]: "raises_only P (Inr v)"
  by (simp add: raises_only_def)

lemma raises_only_Inl [simp]: "raises_only P (Inl e) = P e"
  by (simp add: raises_only_def)

lemma raises_only_bind:
  "raises_only P r \<Longrightarrow> (\<And>v. r = Inr v \<Longrightarrow> raises_only P (f v)) \<Longrightarrow> raises_only P (bind_err r f)"
  by (cases r) simp_all

lemma raises_only_if:
  "(b \<Longrightarrow> raises_only P x) \<Longrightarrow> (\<not> b \<Longrightarrow> raises_only P y) \<Longrightarrow> raises_only P (if b then x else y)"
  by simp

lemma raises_only_map_err:
  "(\<And>x. x \<in> set xs \<Longrightarrow> raises_only P (f x)) \<Longrightarrow> raises_only P (map_err f xs)"
  by (induction xs) (auto intro!: raises_only_bind)

lemma raises_only_get_col: "(\<And>c. P (KeyError c)) \<Longrightarrow> raises_only P (get_col df c)"
  by (simp add: get_col_def split: option.splits)

lemma raises_only_lift_lib: "(\<And>s. P (LibraryError s)) \<Longrightarrow> raises_only P (lift_lib r)"
  by (cases r) (simp_all add: lift_lib_def)

lemma column_error_simps [simp]: "column_error TypeError" "column_error (KeyError c)"
  by (simp_all add: column_error_def)

lemma engineer_features_raises: "raises_only column_error (engineer_features data)"
  unfolding engineer_features_def Let_def
  by (intro raises_only_bind raises_only_get_col)
     (simp_all add: pd_cut_def series_div_scalar_def median_def series_gt_scalar_def series_div_def Let_def)

subsection \<open>Evaluating the model path\<close>

text \<open>An artifact that holds none of the keys: the model path raises KeyError at once.\<close>

lemma model_path_without_model: "md_model md = None \<Longrightarrow> model_path md df = Inl (KeyError ''model'')"
  by (simp add: model_path_def)


lemmas batch_defs = predict_batch_def prepare_prediction_data_def fallback_batch_def
  fallback_prediction_def categorize_risk_def

subsection \<open>Missing columns in the Feature Engine\<close>

lemma engineer_features_needs_columns:
  assumes "engineer_features df = Inr fe"
  shows "\<forall>c\<in>set required_columns. has_col df c"
  using assms
  by (auto simp: engineer_features_def bind_err_eq_Inr Let_def get_col_set_col
      has_col_iff_get_col required_columns_def split: if_splits)

lemma numeric_colD: "numeric_col df c \<Longrightarrow> get_col df c = Inr xs \<Longrightarrow> \<not> has_Str xs"
  by (simp add: numeric_col_def)

lemmas series_defs = pd_cut_def series_div_scalar_def median_def series_gt_scalar_def
  series_div_def

lemma engineer_features_cases:
  assumes num: "\<forall>c\<in>set required_columns. numeric_col df c"
  shows "(case find (\<lambda>c. \<not> has_col df c) required_columns of
            Some c \<Rightarrow> engineer_features df = Inl (KeyError c)
          | None \<Rightarrow> (\<exists>fe. engineer_features df = Inr fe))"
proof -
  have n: "\<not> has_Str xs" if "get_col df c = Inr xs" "c \<in> set required_columns" for c xs
    using num that numeric_colD by blast
  note ev = engineer_features_def Let_def get_col_set_col get_col_absent series_defs
  show ?thesis
  proof (cases "has_col df ''demand_variability''")
    case False
    then show ?thesis by (simp add: required_columns_def ev)
  next
    case c1: True
    then obtain x1 where x1: "get_col df ''demand_variability'' = Inr x1"
      by (auto simp: has_col_iff_get_col)
    show ?thesis
    proof (cases "has_col df ''price''")
      case False
      then show ?thesis using c1 by (simp add: required_columns_def ev x1)
    next
      case c2: True
      then obtain x2 where x2: "get_col df ''price'' = Inr x2"
        by (auto simp: has_col_iff_get_col)
      have n2: "\<not> has_Str x2"
        using n [OF x2] by (simp add: required_columns_def)
      show ?thesis
      proof (cases "has_col df ''avg_daily_demand''")
        case False
        then show ?thesis using c1 c2 by (simp add: required_columns_def ev x1 x2 n2)
      next
        case c3: True
        then obtain x3 where x3: "get_col df ''avg_daily_demand'' = Inr x3"
          by (auto simp: has_col_iff_get_col)
        have n3: "\<not> has_Str x3"
          using n [OF x3] by (simp add: required_columns_def)
        show ?thesis
        proof (cases "has_col df ''total_stockouts''")
          case False
          then show ?thesis using c1 c2 c3 by (simp add: required_columns_def ev x1 x2 n2 x3 n3)
        next
          case c4: True
          then obtain x4 where x4: "get_col df ''total_stockouts'' = Inr x4"
            by (auto simp: has_col_iff_get_col)
          have n4: "\<not> has_Str x4"
            using n [OF x4] by (simp add: required_columns_def)
          show ?thesis
          proof (cases "has_col df ''supplier_lead_time''")
            case False
            then show ?thesis using c1 c2 c3 c4
              by (simp add: required_columns_def ev x1 x2 n2 x3 n3 x4 n4)
          next
            case c5: True
            then obtain x5 where x5: "get_col df ''supplier_lead_time'' = Inr x5"
              by (auto simp: has_col_iff_get_col)
            have n5: "\<not> has_Str x5"
              using n [OF x5] by (simp add: required_columns_def)
            show ?thesis
            proof (cases "has_col df ''seasonal_factor''")
              case False
              then show ?thesis using c1 c2 c3 c4 c5
                by (simp add: required_columns_def ev x1 x2 n2 x3 n3 x4 n4 x5 n5)
            next
              case c6: True
              then obtain x6 where x6: "get_col df ''seasonal_factor'' = Inr x6"
                by (auto simp: has_col_iff_get_col)
              have n6: "\<not> has_Str x6"
                using n [OF x6] by (simp add: required_columns_def)
              show ?thesis
              proof (cases "has_col df ''stock_coverage_days''")
                case False
                then show ?thesis using c1 c2 c3 c4 c5 c6
                  by (simp add: required_columns_def ev x1 x2 n2 x3 n3 x4 n4 x5 n5 x6 n6)
              next
                case c7: True
                then obtain x7 where x7: "get_col df ''stock_coverage_days'' = Inr x7"
                  by (auto simp: has_col_iff_get_col)
                have n7: "\<not> has_Str x7"
                  using n [OF x7] by (simp add: required_columns_def)
                show ?thesis using c1 c2 c3 c4 c5 c6 c7
                  by (simp add: required_columns_def ev x1 x2 n2 x3 n3 x4 n4 x5 n5 x6 n6 x7 n7)
              qed
            qed
          qed
        qed
      qed
    qed
  qed
qed

text \<open>
  C7. The Feature Engine raises when a required column is structurally absent, and does
  not raise when the column is present but empty. The exception is the KeyError of
  the column lookup \<open>df_features[c]\<close> (the code has no exception class of its own;
  this is the specification's FeatureError). Whenever a required column is absent
  \<open>engineer_features\<close> raises; when the columns that are present are numeric the
  exception is the KeyError of an absent required column (the first one read); and when
  all are present and numeric it returns, whatever the cells are: NaN everywhere, or
  no row at all.
\<close>

theorem feature_engine_missing_column:
  "((\<exists>c\<in>set required_columns. \<not> has_col df c) \<longrightarrow> (\<exists>e. engineer_features df = Inl e))
   \<and> ((\<forall>c\<in>set required_columns. numeric_col df c)
        \<and> (\<exists>c\<in>set required_columns. \<not> has_col df c) \<longrightarrow>
          (\<exists>c\<in>set required_columns. \<not> has_col df c \<and> engineer_features df = Inl (KeyError c)))
   \<and> ((\<forall>c\<in>set required_columns. has_col df c \<and> numeric_col df c) \<longrightarrow>
          (\<exists>fe. engineer_features df = Inr fe))"
proof (intro conjI impI)
  assume "\<exists>c\<in>set required_columns. \<not> has_col df c"
  then show "\<exists>e. engineer_features df = Inl e"
    using engineer_features_needs_columns [of df] by (cases "engineer_features df") auto
next
  assume a: "(\<forall>c\<in>set required_columns. numeric_col df c)
        \<and> (\<exists>c\<in>set required_columns. \<not> has_col df c)"
  then obtain c where c: "find (\<lambda>c. \<not> has_col df c) required_columns = Some c"
    by (cases "find (\<lambda>c. \<not> has_col df c) required_columns") (auto simp: find_None_iff)
  then have "c \<in> set required_columns" "\<not> has_col df c"
    by (auto simp: find_Some_iff)
  moreover have "engineer_features df = Inl (KeyError c)"
    using engineer_features_cases [of df] a c by simp
  ultimately show "\<exists>c\<in>set required_columns. \<not> has_col df c \<and> engineer_features df = Inl (KeyError c)"
    by blast
next
  assume a: "\<forall>c\<in>set required_columns. has_col df c \<and> numeric_col df c"
  then have "find (\<lambda>c. \<not> has_col df c) required_columns = None"
    by (simp add: find_None_iff)
  then show "\<exists>fe. engineer_features df = Inr fe"
    using engineer_features_cases [of df] a by simp
qed

theorem feature_engine_missing_column_witness:
  "engineer_features
     \<lparr>nrows = 1,
        cols = [(''demand_variability'', [NaN]), (''avg_daily_demand'', [NaN]),
                (''total_stockouts'', [NaN]), (''supplier_lead_time'', [NaN]),
                (''seasonal_factor'', [NaN]), (''stock_coverage_days'', [NaN])]\<rparr>
     = Inl (KeyError ''price'')
   \<and> (\<exists>fe. engineer_features
           \<lparr>nrows = 1,
              cols = [(''demand_variability'', [NaN]), (''price'', [NaN]),
                      (''avg_daily_demand'', [NaN]), (''total_stockouts'', [NaN]),
                      (''supplier_lead_time'', [NaN]), (''seasonal_factor'', [NaN]),
                      (''stock_coverage_days'', [NaN])]\<rparr> = Inr fe)
   \<and> (\<exists>fe. engineer_features
           \<lparr>nrows = 0,
              cols = [(''demand_variability'', []), (''price'', []),
                      (''avg_daily_demand'', []), (''total_stockouts'', []),
                      (''supplier_lead_time'', []), (''seasonal_factor'', []),
                      (''stock_coverage_days'', [])]\<rparr> = Inr fe)"
  using feature_engine_missing_column
    [of "\<lparr>nrows = 1,
        cols = [(''demand_variability'', [NaN]), (''avg_daily_demand'', [NaN]),
                (''total_stockouts'', [NaN]), (''supplier_lead_time'', [NaN]),
                (''seasonal_factor'', [NaN]), (''stock_coverage_days'', [NaN])]\<rparr>"]
    feature_engine_missing_column
    [of "\<lparr>nrows = 1,
              cols = [(''demand_variability'', [NaN]), (''price'', [NaN]),
                      (''avg_daily_demand'', [NaN]), (''total_stockouts'', [NaN]),
                      (''supplier_lead_time'', [NaN]), (''seasonal_factor'', [NaN]),
                      (''stock_coverage_days'', [NaN])]\<rparr>"]
    feature_engine_missing_column
    [of "\<lparr>nrows = 0,
              cols = [(''demand_variability'', []), (''price'', []),
                      (''avg_daily_demand'', []), (''total_stockouts'', []),
                      (''supplier_lead_time'', []), (''seasonal_factor'', []),
                      (''stock_coverage_days'', [])]\<rparr>"]
  by (simp add: required_columns_def numeric_col_def has_col_def get_col_def has_Str_def)


subsection \<open>Stock coverage and stock health\<close>

lemma get_col_default_col: "k \<noteq> c \<Longrightarrow> get_col (default_col c v df) k = get_col df k"
  by (simp add: default_col_def set_scalar_def get_col_set_col)

lemma get_col_default_features:
  "k \<notin> set (map fst default_features) \<Longrightarrow>
   get_col (fold (\<lambda>(c, v). default_col c v) default_features df) k = get_col df k"
  by (simp add: default_features_def get_col_default_col)

lemma series_div_eq_Inr:
  "series_div xs ys = Inr zs \<longleftrightarrow> \<not> has_Str xs \<and> \<not> has_Str ys \<and> zs = map2 fl_div xs ys"
  by (auto simp: series_div_def)

text \<open>
  Whatever the table is, the coverage \<open>prepare_prediction_data\<close> writes is the
  quotient of the two columns, cell by cell, and the stock health of
  \<open>engineer_features\<close> that of the coverage and the lead time.
\<close>

lemma prepare_coverage:
  assumes "prepare_prediction_data inventory sales = Inr df"
  shows "\<exists>stock avg. get_col df ''current_stock'' = Inr stock
           \<and> get_col df ''avg_daily_demand'' = Inr avg
           \<and> get_col df ''stock_coverage_days'' = Inr (map2 fl_div stock avg)"
proof -
  from assms obtain df5 stock avg rate where
    s: "get_col df5 ''current_stock'' = Inr stock" and a: "get_col df5 ''avg_daily_demand'' = Inr avg"
    and df: "df = fold (\<lambda>(c, v). default_col c v) default_features
               (set_col (set_col df5 ''stock_coverage_days'' (map2 fl_div stock avg))
                  ''stockout_rate'' rate)"
    by (auto simp: prepare_prediction_data_def bind_err_eq_Inr Let_def series_div_eq_Inr)
  show ?thesis
    using s a by (simp add: df get_col_default_features default_features_def get_col_set_col get_col_default_col)
qed

lemma engineer_health:
  assumes "engineer_features data = Inr fe"
  shows "\<exists>cov lt. get_col data ''stock_coverage_days'' = Inr cov
           \<and> get_col data ''supplier_lead_time'' = Inr lt
           \<and> get_col fe ''stock_health_score'' = Inr (map2 fl_div cov lt)"
  using assms
  by (auto simp: engineer_features_def bind_err_eq_Inr Let_def series_div_eq_Inr get_col_set_col)

lemma has_col_default_col [simp]: "has_col (default_col c v df) c"
  by (simp add: default_col_def set_scalar_def has_col_set_col)

text \<open>
  C6 says that the feature \<open>stock_coverage_days\<close> is guarded against a division by
  zero by treating a demand below 1 as 1, so that it is defined for every demand from 0
  on. \<open>prepare_prediction_data\<close> divides the column \<open>current_stock\<close> by the column
  \<open>avg_daily_demand\<close> as it is. For a product with stock 10 and demand 0 the
  division by zero takes place: the feature is infinite, and so is the
  \<open>stock_health_score\<close> that \<open>engineer_features\<close> derives from it, where the
  guarded quotient is 10. For the demand 0.5 the feature is 20, not 10. The same
  quotient is guarded by \<open>max(avg_daily_demand, 1)\<close> in the fallback and in the
  recommendations.
\<close>

theorem zero_demand_divides_by_zero:
  "(\<exists>df fe. prepare_prediction_data
           \<lparr>nrows = 1,
              cols = [(''product_id'', [Str ''P1'']), (''current_stock'', [Num 10]),
                      (''avg_daily_demand'', [Num 0]), (''supplier_lead_time'', [Num 7])]\<rparr>
           None = Inr df
       \<and> get_col df ''stock_coverage_days'' = Inr [PInf]
       \<and> engineer_features df = Inr fe
       \<and> get_col fe ''stock_health_score'' = Inr [PInf]
       \<and> spec_stock_coverage_days 10 0 = 10)
   \<and> (\<exists>df. prepare_prediction_data
           \<lparr>nrows = 1,
              cols = [(''product_id'', [Str ''P1'']), (''current_stock'', [Num 10]),
                      (''avg_daily_demand'', [Num 0.5]), (''supplier_lead_time'', [Num 7])]\<rparr>
           None = Inr df
       \<and> get_col df ''stock_coverage_days'' = Inr [Num 20]
       \<and> spec_stock_coverage_days 10 0.5 = 10)"
  by (simp add: prepare_prediction_data_def engineer_features_def table_defs scalar_defs
      series_defs fillna_def spec_stock_coverage_days_def Let_def cong: let_weak_cong)


subsection \<open>Products missing from the sales history\<close>

lemma merge_left_no_overlap:
  assumes keys: "get_col inventory ''product_id'' = Inr keys"
    and no: "\<forall>c\<in>set (map fst agg_columns). \<not> has_col inventory c"
  shows "merge_left inventory agg =
     Inr (inventory\<lparr>cols := cols inventory @
            [(''avg_daily_demand'', joined agg keys agg_avg),
             (''demand_std'', joined agg keys agg_std),
             (''max_daily_demand'', joined agg keys agg_max),
             (''total_stockouts'', joined agg keys agg_stockouts)]\<rparr>)"
proof -
  have "filter (has_col inventory) (map fst agg_columns) = []"
    using no by (simp add: filter_empty_conv)
  then show ?thesis
    by (simp add: merge_left_def keys Let_def agg_columns_def joined_def)
qed

lemma sales_agg_lookup:
  "map_of (sales_agg sh) pid = Some a \<Longrightarrow> a = aggregate sh pid"
  by (auto simp: sales_agg_def map_of_map_restrict restrict_map_def split: if_splits)

lemma sales_agg_absent:
  "pid \<notin> sale_product_id ` set sh \<Longrightarrow> map_of (sales_agg sh) pid = None"
  by (simp add: sales_agg_def map_of_map_restrict restrict_map_def)

lemma aggregate_numeric:
  "\<not> is_Str (agg_avg (aggregate sh pid))" "\<not> is_Str (agg_std (aggregate sh pid))"
  "\<not> is_Str (agg_max (aggregate sh pid))" "\<not> is_Str (agg_stockouts (aggregate sh pid))"
  by (simp_all add: aggregate_def Let_def sample_std_def list_max_def split: list.splits)

lemma joined_numeric:
  assumes "sel = agg_avg \<or> sel = agg_std \<or> sel = agg_max \<or> sel = agg_stockouts"
  shows "\<not> has_Str (joined (sales_agg sh) keys sel)"
  using assms aggregate_numeric
  by (auto simp: has_Str_def list_ex_iff joined_def split: option.splits cell.splits
      dest!: sales_agg_lookup)

lemma get_col_appended:
  "get_col (df\<lparr>cols := cols df @ extra\<rparr>) c =
     (case get_col df c of Inr xs \<Rightarrow> Inr xs
      | Inl e \<Rightarrow> (case map_of extra c of None \<Rightarrow> Inl (KeyError c) | Some xs \<Rightarrow> Inr xs))"
  by (simp add: get_col_def map_add_def split: option.splits)

lemma default_col_present: "has_col df c \<Longrightarrow> default_col c v df = df"
  by (simp add: default_col_def)

lemma fl_div_NaN [simp]: "fl_div a NaN = NaN"
  by (cases a) simp_all

lemma length_joined [simp]: "length (joined agg keys sel) = length keys"
  by (simp add: joined_def)

text \<open>
  An inventory that has none of the four columns of the aggregate is joined with the
  history name by name: the four columns are those of the join, with NaN for a product
  the history does not have.
\<close>

lemma prepare_with_history:
  assumes keys: "get_col inventory ''product_id'' = Inr keys"
    and stock: "get_col inventory ''current_stock'' = Inr stock" and ns: "\<not> has_Str stock"
    and no: "\<forall>c\<in>set (map fst agg_columns). \<not> has_col inventory c"
  shows "\<exists>df. prepare_prediction_data inventory (Some sh) = Inr df
     \<and> get_col df ''avg_daily_demand'' = Inr (joined (sales_agg sh) keys agg_avg)
     \<and> get_col df ''demand_std'' = Inr (joined (sales_agg sh) keys agg_std)
     \<and> get_col df ''max_daily_demand'' = Inr (joined (sales_agg sh) keys agg_max)
     \<and> get_col df ''total_stockouts'' = Inr (joined (sales_agg sh) keys agg_stockouts)
     \<and> get_col df ''demand_variability'' =
           Inr (map2 fl_div (joined (sales_agg sh) keys agg_std) (joined (sales_agg sh) keys agg_avg))
     \<and> get_col df ''stock_coverage_days'' =
           Inr (map2 fl_div stock (joined (sales_agg sh) keys agg_avg))"
proof -
  let ?J = "joined (sales_agg sh) keys"
  let ?df0 = "inventory\<lparr>cols := cols inventory @
            [(''avg_daily_demand'', ?J agg_avg), (''demand_std'', ?J agg_std),
             (''max_daily_demand'', ?J agg_max), (''total_stockouts'', ?J agg_stockouts)]\<rparr>"
  have absent: "get_col inventory ''avg_daily_demand'' = Inl (KeyError ''avg_daily_demand'')"
    "get_col inventory ''demand_std'' = Inl (KeyError ''demand_std'')"
    "get_col inventory ''max_daily_demand'' = Inl (KeyError ''max_daily_demand'')"
    "get_col inventory ''total_stockouts'' = Inl (KeyError ''total_stockouts'')"
    using no by (simp_all add: agg_columns_def get_col_absent)
  have g: "get_col ?df0 ''avg_daily_demand'' = Inr (?J agg_avg)"
    "get_col ?df0 ''demand_std'' = Inr (?J agg_std)"
    "get_col ?df0 ''max_daily_demand'' = Inr (?J agg_max)"
    "get_col ?df0 ''total_stockouts'' = Inr (?J agg_stockouts)"
    "get_col ?df0 ''current_stock'' = Inr stock"
    by (simp_all add: get_col_appended absent stock)
  have h: "has_col ?df0 ''avg_daily_demand''" "has_col ?df0 ''demand_std''"
    "has_col ?df0 ''max_daily_demand''" "has_col ?df0 ''total_stockouts''"
    using g by (simp_all add: has_col_iff_get_col)
  have n: "\<not> has_Str (?J agg_avg)" "\<not> has_Str (?J agg_std)" "\<not> has_Str (?J agg_stockouts)"
    by (simp_all add: joined_numeric)
  have m: "merge_left inventory (sales_agg sh) = Inr ?df0"
    by (rule merge_left_no_overlap [OF keys no])
  show ?thesis
    unfolding prepare_prediction_data_def
    by (simp add: m Let_def default_col_present h g n ns series_div_def series_div_scalar_def
        get_col_set_col get_col_default_col default_features_def)
qed

text \<open>
  C10 says that a product of the inventory that the supplied sales history does not
  have gets NaN in the four demand columns after the left join, and no default. Take an
  inventory that carries a column \<open>avg_daily_demand\<close> itself (as the dictionaries of
  \<open>predict_single_product\<close> and the tables of the dashboard do), with the products
  P1 and P2, and a history of two days of P2. The join keeps the two columns of that
  name as \<open>avg_daily_demand_x\<close> and \<open>avg_daily_demand_y\<close>, so the table has no
  column \<open>avg_daily_demand\<close> any more and the default 10 is written for every
  product: P1, missing from the history, gets the demand 10 and a finite stock
  coverage where NaN is due, and P2 gets 10 where the history says 4 and the inventory
  7. The columns that do not collide are joined as the comment of the code says:
  \<open>total_stockouts\<close> is NaN for P1.
\<close>

theorem join_overlap_applies_defaults:
  "\<exists>df. prepare_prediction_data
          \<lparr>nrows = 2,
             cols = [(''product_id'', [Str ''P1'', Str ''P2'']),
                     (''current_stock'', [Num 5, Num 8]),
                     (''avg_daily_demand'', [Num 5, Num 7])]\<rparr>
          (Some [\<lparr>sale_product_id = ''P2'', daily_demand = 3, stockout = 0\<rparr>,
                 \<lparr>sale_product_id = ''P2'', daily_demand = 5, stockout = 1\<rparr>]) = Inr df
      \<and> get_col df ''avg_daily_demand'' = Inr [Num 10, Num 10]
      \<and> get_col df ''avg_daily_demand_x'' = Inr [Num 5, Num 7]
      \<and> get_col df ''avg_daily_demand_y'' = Inr [NaN, Num 4]
      \<and> get_col df ''total_stockouts'' = Inr [NaN, Num 1]
      \<and> get_col df ''stock_coverage_days'' = Inr [Num (1 / 2), Num (4 / 5)]"
  by (simp add: prepare_prediction_data_def merge_left_def sales_agg_def aggregate_def
      agg_columns_def mean_def sample_std_def list_max_def table_defs scalar_defs Let_def
      eval_nat_numeral cong: let_weak_cong)


subsection \<open>Predicting needs a trained model\<close>

lemma le_transform_raises:
  "raises_only (\<lambda>e. e = AttributeError \<or> e = ValueError ''y contains previously unseen labels'')
     (le_transform enc ys)"
  unfolding le_transform_def
  by (intro raises_only_bind raises_only_map_err)
     (simp_all add: classes_of_def split: option.splits)

lemma raises_only_mono: "raises_only P r \<Longrightarrow> (\<And>e. P e \<Longrightarrow> Q e) \<Longrightarrow> raises_only Q r"
  by (cases r) simp_all

lemma encode_inference_raises:
  "raises_only (\<lambda>e. e \<noteq> not_trained_error) (encode_inference encs cs df)"
proof (induction encs cs df rule: encode_inference.induct)
  case (1 encs df)
  then show ?case by simp
next
  case (2 encs col rest df)
  show ?case
  proof (cases "map_of encs col")
    case None
    with 2 show ?thesis by simp
  next
    case (Some enc)
    have a: "raises_only (\<lambda>e. e \<noteq> not_trained_error) (classes_of enc)"
      by (simp add: classes_of_def not_trained_error_def split: option.splits)
    have b: "raises_only (\<lambda>e. e \<noteq> not_trained_error) (le_transform enc ys)" for ys
      by (rule raises_only_mono [OF le_transform_raises]) (auto simp: not_trained_error_def)
    have k: "KeyError c \<noteq> not_trained_error" for c
      by (simp add: not_trained_error_def)
    have g: "raises_only (\<lambda>e. e \<noteq> not_trained_error) (get_series df col)"
      unfolding get_series_def
      by (intro raises_only_bind raises_only_get_col k) simp
    have f: "raises_only (\<lambda>e. e \<noteq> not_trained_error) (fillna_series v s)" for v s
      by (simp add: fillna_series_def not_trained_error_def split: series.splits)
    show ?thesis
      using Some 2(2)
      by (auto intro!: raises_only_bind a b g f)
  qed
qed

lemma prepare_features_inference:
  "prepare_features m data False =
     (m, case encode_inference (encoders m) categorical_cols data of
           Inl e \<Rightarrow> Inl e
         | Inr df_model \<Rightarrow> Inr (select_features df_model, available_cols df_model))"
  by (simp add: prepare_features_def split: sum.splits)

lemma fst_predict [simp]: "fst (predict m data) = m"
  by (simp add: predict_def prepare_features_inference split: sum.splits)

lemma snd_predict:
  "is_trained m \<Longrightarrow>
   snd (predict m data) =
     bind_err (engineer_features data) (\<lambda>de.
     bind_err (encode_inference (encoders m) categorical_cols de) (\<lambda>df_model.
     bind_err (case scaler m of None \<Rightarrow> Inr (select_features df_model)
               | Some sc \<Rightarrow> lift_lib (sc (select_features df_model))) (\<lambda>X1.
     case model m of
       None \<Rightarrow> Inl AttributeError
     | Some clf \<Rightarrow>
         bind_err (lift_lib (clf_predict clf X1)) (\<lambda>predictions.
         bind_err (lift_lib (clf_predict_proba clf X1)) (\<lambda>probabilities.
           Inr (predictions, probabilities))))))"
  by (simp add: predict_def prepare_features_inference split: sum.splits)

lemma predict_trained:
  assumes "is_trained m"
  shows "snd (predict m data) \<noteq> Inl not_trained_error"
proof -
  have e: "raises_only (\<lambda>e. e \<noteq> not_trained_error) (engineer_features data)"
    by (rule raises_only_mono [OF engineer_features_raises])
       (auto simp: column_error_def not_trained_error_def)
  have l: "LibraryError s \<noteq> not_trained_error" for s
    by (simp add: not_trained_error_def)
  have a: "AttributeError \<noteq> not_trained_error"
    by (simp add: not_trained_error_def)
  have "raises_only (\<lambda>e. e \<noteq> not_trained_error) (snd (predict m data))"
    unfolding snd_predict [OF assms]
    by (intro raises_only_bind e encode_inference_raises)
       (auto split: option.splits intro!: raises_only_bind raises_only_lift_lib l a)
  then show ?thesis
    by (auto simp: raises_only_def)
qed

lemma predict_untrained: "\<not> is_trained m \<Longrightarrow> snd (predict m data) = Inl not_trained_error"
  by (simp add: predict_def)

lemma is_trained_encoders [simp]: "is_trained (m\<lparr>encoders := e\<rparr>) = is_trained m"
  by simp

lemma prepare_features_is_trained [simp]:
  "is_trained (fst (prepare_features m data fit)) = is_trained m"
  by (simp add: prepare_features_def split: sum.splits prod.splits)

lemma train_is_trained:
  "is_trained (fst (train fit m data target mtype))
     = (is_trained m \<or> (\<exists>r. snd (train fit m data target mtype) = Inr r))"
proof -
  have p: "is_trained m1 = is_trained m" if "prepare_features m d True = (m1, r)" for m1 d r
    using prepare_features_is_trained [of m d True] that by simp
  show ?thesis
    by (auto simp: train_def p split: sum.splits prod.splits)
qed

lemma load_model_is_trained:
  "is_trained (fst (load_model m loaded))
     = (is_trained m \<or> (\<exists>u. snd (load_model m loaded) = Inr u))"
  by (auto simp: load_model_def Let_def split: sum.splits option.splits)

lemma call_is_trained:
  "is_trained (fst (call fit m c)) = (is_trained m \<or> snd (call fit m c))"
proof (cases c)
  case (Train d t mt)
  then show ?thesis
    using train_is_trained [of fit m d t mt] by (auto split: prod.splits sum.splits)
next
  case (Load l)
  then show ?thesis
    using load_model_is_trained [of m l] by (auto split: prod.splits sum.splits)
next
  case (Predict d)
  then show ?thesis by simp
qed

lemma run_is_trained:
  "is_trained (fst (run fit m cs)) = (is_trained m \<or> snd (run fit m cs))"
proof (induction cs arbitrary: m)
  case Nil
  then show ?case by simp
next
  case (Cons c cs)
  show ?case
    using Cons [of "fst (call fit m c)"] call_is_trained [of fit m c]
    by (auto split: prod.splits)
qed

text \<open>
  C8. On a model object on which neither \<open>train\<close> nor \<open>load_model\<close> has completed,
  \<open>predict\<close> raises the not-trained error (the code's
  \<open>ValueError("Model must be trained before making predictions")\<close>, the
  specification's NotTrainedError); once one of them has completed, \<open>predict\<close> does
  not raise that error, whatever else it raises. Stated for every history of calls on
  a fresh object: \<open>predict\<close> after the history raises the error exactly when no
  \<open>train\<close> and no \<open>load_model\<close> of the history has completed.
\<close>

theorem predict_needs_train_or_load:
  "(snd (predict (fst (run fit init_model calls)) data) = Inl not_trained_error)
     = (\<not> snd (run fit init_model calls))"
proof -
  have "is_trained (fst (run fit init_model calls)) = snd (run fit init_model calls)"
    by (simp add: run_is_trained init_model_def)
  then show ?thesis
    using predict_trained [of "fst (run fit init_model calls)" data]
      predict_untrained [of "fst (run fit init_model calls)" data]
    by auto
qed


subsection \<open>Unseen categories at inference\<close>







subsection \<open>The heuristic\<close>









subsection \<open>The fallback of a batch\<close>

text \<open>
  C1. When the model path raises during \<open>predict_batch\<close> the service is to return one
  assessment for each row, every score in [0,1], and the fallback itself is never to
  raise. The fallback guards the demand (\<open>max(avg_daily_demand, 1)\<close>) but not the lead
  time: for a row whose \<open>supplier_lead_time\<close> is 0 the division by \<open>lead_time * 2\<close>
  raises ZeroDivisionError, and \<open>predict_batch\<close> raises it to its caller. (The table
  has a column of strings, so its rows are Python objects.)
\<close>

theorem predict_batch_zero_lead_time_raises:
  "predict_batch empty_artifact now
     \<lparr>nrows = 1,
        cols = [(''product_id'', [Str ''P1'']), (''current_stock'', [Num 5]),
                (''minimum_stock_level'', [Num 20]), (''supplier_lead_time'', [Num 0])]\<rparr>
     None
   = Inl ZeroDivisionError"
  by (simp add: batch_defs model_path_without_model empty_artifact_def table_defs scalar_defs
      Let_def cong: let_weak_cong)

subsection \<open>The order of a batch\<close>

lemma desc_key_le: "desc_key a \<le> desc_key b \<Longrightarrow> \<not> fl_less a b"
  by (cases a; cases b) simp_all

lemma get_col_take_rows:
  "get_col (take_rows df idx) c = (case get_col df c of Inl e \<Rightarrow> Inl e | Inr xs \<Rightarrow> Inr (map (cell_at xs) idx))"
  by (simp add: get_col_def take_rows_def map_of_map split: option.splits)

lemma sort_values_desc_sorted:
  assumes "sort_values_desc df c = Inr res"
  shows "nrows res = nrows df \<and>
    (\<exists>ss. get_col res c = Inr ss \<and> length ss = nrows df \<and> sorted_wrt (\<lambda>a b. \<not> fl_less a b) ss)"
proof -
  from assms obtain ks where ks: "get_col df c = Inr ks"
    and res: "res = take_rows df (sort_key (\<lambda>i. desc_key (cell_at ks i)) [0..<nrows df])"
    by (auto simp: sort_values_desc_def bind_err_eq_Inr split: if_splits)
  let ?perm = "sort_key (\<lambda>i. desc_key (cell_at ks i)) [0..<nrows df]"
  have "sorted (map (\<lambda>i. desc_key (cell_at ks i)) ?perm)"
    by (rule sorted_sort_key)
  then have "sorted_wrt (\<lambda>i j. desc_key (cell_at ks i) \<le> desc_key (cell_at ks j)) ?perm"
    by (simp add: sorted_map)
  then have "sorted_wrt (\<lambda>i j. \<not> fl_less (cell_at ks i) (cell_at ks j)) ?perm"
    by (rule sorted_wrt_mono_rel [rotated]) (simp add: desc_key_le)
  then have "sorted_wrt (\<lambda>a b. \<not> fl_less a b) (map (cell_at ks) ?perm)"
    by (simp add: sorted_wrt_map)
  moreover have "nrows res = nrows df"
    by (simp add: res take_rows_def)
  ultimately show ?thesis
    by (simp add: res get_col_take_rows ks)
qed

lemma predict_batch_sorted:
  assumes "predict_batch md now inventory sales = Inr res"
  shows "nrows res = nrows inventory \<and>
    (\<exists>ss. get_col res ''risk_score'' = Inr ss \<and> length ss = nrows inventory
         \<and> sorted_wrt (\<lambda>a b. \<not> fl_less a b) ss)"
proof -
  from assms have "\<exists>r4. sort_values_desc (set_scalar r4 ''prediction_timestamp'' (Str now))
        ''risk_score'' = Inr res \<and> nrows r4 = nrows inventory"
    by (fastforce simp: predict_batch_def bind_err_eq_Inr assign_values_eq_Inr Let_def
        split: prod.splits)
  then obtain r4 where "nrows r4 = nrows inventory"
    and "sort_values_desc (set_scalar r4 ''prediction_timestamp'' (Str now)) ''risk_score'' = Inr res"
    by blast
  then show ?thesis
    using sort_values_desc_sorted [of "set_scalar r4 ''prediction_timestamp'' (Str now)" "''risk_score''" res]
    by simp
qed

text \<open>
  C5. The rows \<open>predict_batch\<close> returns, one for each row of the inventory, are in
  descending order of \<open>risk_score\<close>: no row has a smaller score than a row after it
  (on either path, the model's or the fallback's). In particular three products with
  the heuristic scores 0.2, 0.9, 0.5 come back in the order 0.9, 0.5, 0.2.
\<close>

theorem predict_batch_sorted_by_risk:
  "(predict_batch md now inventory sales = Inr res \<longrightarrow>
      nrows res = nrows inventory \<and>
      (\<exists>ss. get_col res ''risk_score'' = Inr ss \<and> length ss = nrows inventory
           \<and> sorted_wrt (\<lambda>a b. \<not> fl_less a b) ss))
   \<and> (\<exists>res3. predict_batch empty_artifact now
                 \<lparr>nrows = 3,
                    cols = [(''product_id'', [Str ''A'', Str ''B'', Str ''C'']),
                            (''current_stock'', [Num 112, Num 14, Num 70]),
                            (''supplier_lead_time'', [Num 7, Num 7, Num 7])]\<rparr> None = Inr res3
          \<and> get_col res3 ''product_id'' = Inr [Str ''B'', Str ''C'', Str ''A'']
          \<and> get_col res3 ''risk_score'' = Inr [Num 0.9, Num 0.5, Num 0.2])"
proof (intro conjI impI)
  assume "predict_batch md now inventory sales = Inr res"
  then show "nrows res = nrows inventory"
    and "\<exists>ss. get_col res ''risk_score'' = Inr ss \<and> length ss = nrows inventory
           \<and> sorted_wrt (\<lambda>a b. \<not> fl_less a b) ss"
    using predict_batch_sorted by blast+
next
  show "\<exists>res3. predict_batch empty_artifact now
                 \<lparr>nrows = 3,
                    cols = [(''product_id'', [Str ''A'', Str ''B'', Str ''C'']),
                            (''current_stock'', [Num 112, Num 14, Num 70]),
                            (''supplier_lead_time'', [Num 7, Num 7, Num 7])]\<rparr> None = Inr res3
          \<and> get_col res3 ''product_id'' = Inr [Str ''B'', Str ''C'', Str ''A'']
          \<and> get_col res3 ''risk_score'' = Inr [Num 0.9, Num 0.5, Num 0.2]"
    by (simp add: batch_defs model_path_without_model empty_artifact_def table_defs scalar_defs
        Let_def eval_nat_numeral cong: let_weak_cong)
qed

theorem predict_batch_sorted_by_risk_witness:
  "\<exists>res. predict_batch empty_artifact ''2026-01-01T00:00:00''
           \<lparr>nrows = 2,
              cols = [(''product_id'', [Str ''A'', Str ''B'']),
                      (''current_stock'', [Num 112, Num 14]),
                      (''supplier_lead_time'', [Num 7, Num 7])]\<rparr> None = Inr res
      \<and> nrows res = 2
      \<and> (\<exists>ss. get_col res ''risk_score'' = Inr ss \<and> length ss = 2
             \<and> sorted_wrt (\<lambda>a b. \<not> fl_less a b) ss)"
proof -
  have run: "predict_batch empty_artifact ''2026-01-01T00:00:00''
           \<lparr>nrows = 2,
              cols = [(''product_id'', [Str ''A'', Str ''B'']),
                      (''current_stock'', [Num 112, Num 14]),
                      (''supplier_lead_time'', [Num 7, Num 7])]\<rparr> None
     = Inr \<lparr>nrows = 2,
            cols = [(''product_id'', [Str ''B'', Str ''A'']),
                    (''current_stock'', [Num 14, Num 112]),
                    (''supplier_lead_time'', [Num 7, Num 7]),
                    (''risk_score'', [Num 0.9, Num 0.2]),
                    (''risk_prediction'', [Num 1, Num 0]),
                    (''risk_level'', [Str ''High'', Str ''Low'']),
                    (''risk_category'', [Str ''High Risk'', Str ''Low Risk'']),
                    (''prediction_timestamp'',
                     [Str ''2026-01-01T00:00:00'', Str ''2026-01-01T00:00:00''])]\<rparr>"
    by (simp add: batch_defs model_path_without_model empty_artifact_def table_defs scalar_defs
        Let_def eval_nat_numeral cong: let_weak_cong)
  show ?thesis
    using predict_batch_sorted_by_risk [THEN conjunct1, rule_format, OF run] run
    by simp
qed


subsection \<open>The dashboard's risk distribution\<close>

text \<open>
  C9. The risk distribution of the dashboard is to count every product in exactly one of
  the buckets High, Medium, Low given by its score and the boundaries 0.3 and 0.7, so
  that the counts are not negative and add up to the number of products. The code
  counts as High the rows predicted 1 (in the fallback: a score above 0.5), as Medium
  the rows with a score in [0.3, 0.7], and gives Low the rest. A product with the
  score 0.6 (stock 56, demand 10 a day, lead time 7) is counted as High and as
  Medium, and Low is \<open>1 - 1 - 1 = -1\<close>.
\<close>

theorem dashboard_counts_a_product_twice:
  "\<exists>d. generate_dashboard_data empty_artifact now
          \<lparr>nrows = 1,
             cols = [(''product_id'', [Str ''P1'']), (''current_stock'', [Num 56]),
                     (''avg_daily_demand'', [Num 10]), (''supplier_lead_time'', [Num 7])]\<rparr>
        = Inr d
      \<and> total_products d = 1
      \<and> distribution d = \<lparr>high_risk = Num 1, medium_risk = Num 1, low_risk = Num (- 1)\<rparr>"
  by (simp add: generate_dashboard_data_def batch_defs model_path_without_model
      empty_artifact_def table_defs scalar_defs between_count_def select_top_def
      top_columns_def generate_alerts_def Let_def cong: let_weak_cong)

subsection \<open>Risk categories\<close>

text \<open>
  C3. For every real-valued risk score the categorisation returns exactly one of the three
  labels: Low Risk exactly when the score is below 0.3, Medium Risk exactly when it is
  at least 0.3 and below 0.7, High Risk exactly when it is at least 0.7.
\<close>

theorem categorize_risk_thresholds:
  "\<exists>l. categorize_risk (Num r) = Inr l
     \<and> (l = ''Low Risk'' \<or> l = ''Medium Risk'' \<or> l = ''High Risk'')
     \<and> ((l = ''Low Risk'') = (r < 0.3))
     \<and> ((l = ''Medium Risk'') = (0.3 \<le> r \<and> r < 0.7))
     \<and> ((l = ''High Risk'') = (0.7 \<le> r))"
  by (simp add: categorize_risk_def bind_err_def)

end
